theory Spec2Isabelle
  imports Complex_Main
begin

section \<open>Python values\<close>

text \<open>
  A call of a Python function either raises (\<open>Inl\<close> of the exception) or returns
  (\<open>Inr\<close> of the value); a returned \<open>None\<close> is the \<open>None\<close> of an option inside
  \<open>Inr\<close>. \<open>TypeError\<close> is what \<open>sum\<close> raises on a \<open>None\<close> element; \<open>LibraryError\<close>
  stands for any exception raised inside spaCy, VADER, TextBlob or scikit-learn.
  Floats are modelled by exact reals.
\<close>

datatype py_error = TypeError | LibraryError

definition truthy :: "real option \<Rightarrow> bool" where
  "truthy v = (case v of None \<Rightarrow> False | Some x \<Rightarrow> x \<noteq> 0)"

text \<open>
  \<open>round(x, ndigits)\<close> on an exact real: the nearest value of \<open>ndigits\<close> decimals, a tie
  going to the even neighbour. The interpreter rounds the binary float it has computed,
  which can lie on either side of a tie of the exact value, so there it may return
  either neighbour; the statements on rounded values below say nearest, and leave the
  tie open.
\<close>

definition round_half_even :: "real \<Rightarrow> int" where
  "round_half_even x =
     (let f = \<lfloor>x\<rfloor>; r = x - of_int f
      in if r < 1 / 2 then f
         else if 1 / 2 < r then f + 1
         else if even f then f else f + 1)"

definition py_round :: "real \<Rightarrow> nat \<Rightarrow> real" where
  "py_round x ndigits = of_int (round_half_even (x * 10 ^ ndigits)) / 10 ^ ndigits"

section \<open>models.py: DreamEntry\<close>

text \<open>
  \<open>dream_date\<close> is a naive \<open>datetime\<close>, held as the number of microseconds since
  midnight of its first representable day. The JSON text columns \<open>emotions\<close> and
  \<open>themes\<close> are held decoded: \<open>None\<close> is a NULL or empty column (falsy), \<open>Some\<close>
  the items of the decoded object, in order.
\<close>

type_synonym datetime = int

record DreamEntry =
  dream_date :: datetime
  sleep_quality :: "int option"
  sentiment_score :: "real option"
  emotions :: "(string \<times> real) list option"
  themes :: "string list option"
  stress_level :: "real option"

section \<open>nlp\_analyzer.py: generate\_insights\<close>

record insights =
  total_entries :: nat
  avg_sentiment :: real
  dominant_emotion :: string
  emotion_distribution :: "(string \<times> real) list"
  recurring_themes :: "string list"
  stress_trend :: string

text \<open>\<open>sum(e.sentiment_score for e in entries if e.sentiment_score)\<close>\<close>

definition sum_truthy :: "real option list \<Rightarrow> real" where
  "sum_truthy vs = sum_list (map the (filter truthy vs))"

text \<open>\<open>d[k] = d.get(k, 0) + v\<close> on a dict kept in insertion order.\<close>

fun dict_add :: "(string \<times> real) list \<Rightarrow> string \<Rightarrow> real \<Rightarrow> (string \<times> real) list" where
  "dict_add [] k v = [(k, 0 + v)]"
| "dict_add ((k', v') # d) k v =
     (if k' = k then (k', v' + v) # d else (k', v') # dict_add d k v)"

definition add_entry_emotions :: "(string \<times> real) list \<Rightarrow> DreamEntry \<Rightarrow> (string \<times> real) list" where
  "add_entry_emotions d e =
     (case emotions e of
        None \<Rightarrow> d
      | Some em \<Rightarrow> foldl (\<lambda>acc (k, v). dict_add acc k v) d em)"

definition aggregate_emotions :: "DreamEntry list \<Rightarrow> (string \<times> real) list" where
  "aggregate_emotions entries = foldl add_entry_emotions [] entries"

text \<open>\<open>max(items, key=lambda x: x[1])\<close>: the first item of maximal value.\<close>

fun py_max_item :: "(string \<times> real) \<Rightarrow> (string \<times> real) list \<Rightarrow> (string \<times> real)" where
  "py_max_item best [] = best"
| "py_max_item best (x # xs) = py_max_item (if snd best < snd x then x else best) xs"

definition dominant_of :: "(string \<times> real) list \<Rightarrow> string" where
  "dominant_of all_emotions =
     (case all_emotions of [] \<Rightarrow> ''neutral'' | x # xs \<Rightarrow> fst (py_max_item x xs))"

definition distribution_of :: "(string \<times> real) list \<Rightarrow> (string \<times> real) list" where
  "distribution_of all_emotions =
     (let emotion_total = sum_list (map snd all_emotions)
      in if 0 < emotion_total
         then map (\<lambda>(emotion, score). (emotion, py_round (score / emotion_total) 3)) all_emotions
         else [])"

text \<open>\<open>Counter(xs).most_common(n)\<close>: counts in first-seen order, then the \<open>n\<close>
  largest counts, ties in first-seen order.\<close>

fun counter_add :: "(string \<times> nat) list \<Rightarrow> string \<Rightarrow> (string \<times> nat) list" where
  "counter_add [] k = [(k, 1)]"
| "counter_add ((k', c) # d) k =
     (if k' = k then (k', c + 1) # d else (k', c) # counter_add d k)"

definition most_common :: "nat \<Rightarrow> string list \<Rightarrow> (string \<times> nat) list" where
  "most_common n xs = take n (sort_key (\<lambda>(k, c). - int c) (foldl counter_add [] xs))"

definition all_themes_of :: "DreamEntry list \<Rightarrow> string list" where
  "all_themes_of entries =
     concat (map (\<lambda>e. case themes e of None \<Rightarrow> [] | Some ts \<Rightarrow> ts) entries)"

definition stress_trend_of :: "real list \<Rightarrow> string" where
  "stress_trend_of stress_levels =
     (if 2 \<le> length stress_levels
      then let h = length stress_levels div 2;
               first_half = sum_list (take h stress_levels) / real h;
               second_half = sum_list (drop h stress_levels) / real (length stress_levels - h)
           in if first_half * 1.1 < second_half then ''increasing''
              else if second_half < first_half * 0.9 then ''decreasing''
              else ''stable''
      else ''insufficient data'')"

definition generate_insights :: "DreamEntry list \<Rightarrow> py_error + insights option" where
  "generate_insights entries =
     (if entries = [] then Inr None
      else
        let total = length entries;
            avg = sum_truthy (map sentiment_score entries) / real total;
            all_emotions = aggregate_emotions entries;
            stress_levels = map the (filter (\<lambda>v. v \<noteq> None) (map stress_level entries))
        in Inr (Some \<lparr>total_entries = total,
                      avg_sentiment = py_round avg 3,
                      dominant_emotion = dominant_of all_emotions,
                      emotion_distribution = distribution_of all_emotions,
                      recurring_themes = map fst (most_common 5 (all_themes_of entries)),
                      stress_trend = stress_trend_of stress_levels\<rparr>))"

text \<open>The quantities the specification's sentences about the aggregator speak of.\<close>

definition present_sentiments :: "DreamEntry list \<Rightarrow> real list" where
  "present_sentiments entries =
     map the (filter (\<lambda>v. v \<noteq> None) (map sentiment_score entries))"

definition spec_mean_present :: "DreamEntry list \<Rightarrow> real" where
  "spec_mean_present entries =
     sum_list (present_sentiments entries) / real (length (present_sentiments entries))"

definition emotion_total :: "DreamEntry list \<Rightarrow> real" where
  "emotion_total entries = sum_list (map snd (aggregate_emotions entries))"

text \<open>Entries for the examples: a date, a sentiment, the decoded emotions.\<close>

definition sample_entry ::
  "datetime \<Rightarrow> real option \<Rightarrow> (string \<times> real) list option \<Rightarrow> DreamEntry" where
  "sample_entry d s em =
     \<lparr>dream_date = d, sleep_quality = None, sentiment_score = s, emotions = em,
      themes = None, stress_level = None\<rparr>"

definition thirds :: "DreamEntry list" where
  "thirds =
     [sample_entry 0 None
        (Some [(''joy'', 1 / 2), (''sadness'', 0), (''fear'', 1 / 2), (''anger'', 1 / 2),
               (''surprise'', 0), (''disgust'', 0), (''trust'', 0), (''anticipation'', 0)])]"

section \<open>predictor.py\<close>

definition us_per_day :: int where
  "us_per_day = 86400000000"

definition us_per_hour :: int where
  "us_per_hour = 3600000000"

text \<open>\<open>(a - b).days\<close>: a \<open>timedelta\<close> is normalised, its \<open>days\<close> is the floor.\<close>

definition days_between :: "datetime \<Rightarrow> datetime \<Rightarrow> int" where
  "days_between a b = (a - b) div us_per_day"

definition hour :: "datetime \<Rightarrow> int" where
  "hour d = (d div us_per_hour) mod 24"

record forecast =
  days :: "int list"
  predictions :: "real list"
  trend :: string
  confidence :: string

text \<open>
  \<open>LinearRegression\<close> is a library outside the repository: \<open>predict_mood_trend\<close>
  takes it as a parameter. \<open>fit\<close> on the offsets and the sentiments raises or gives
  a line (slope, intercept); \<open>predict\<close> evaluates the line.
\<close>

type_synonym regressor = "int list \<Rightarrow> real list \<Rightarrow> py_error + (real \<times> real)"

definition line_at :: "real \<times> real \<Rightarrow> int \<Rightarrow> real" where
  "line_at line x = fst line * real_of_int x + snd line"

text \<open>The loop of \<open>predict_mood_trend\<close>: one point for each entry with a sentiment,
  in date order, its offset counted from \<open>entries[0]\<close>.\<close>

definition trend_points :: "DreamEntry list \<Rightarrow> (int \<times> real) list" where
  "trend_points entries =
     map (\<lambda>entry. (days_between (dream_date entry) (dream_date (entries ! 0)),
                    the (sentiment_score entry)))
       (filter (\<lambda>entry. sentiment_score entry \<noteq> None) (sort_key dream_date entries))"

text \<open>
  Everything after the fit runs inside \<open>try\<close>, and \<open>except Exception\<close> returns \<open>None\<close>:
  a fit that raises, and \<open>predictions[-1]\<close> (or \<open>predict\<close>) on no future day.
\<close>

definition predict_mood_trend ::
  "regressor \<Rightarrow> DreamEntry list \<Rightarrow> int \<Rightarrow> py_error + forecast option" where
  "predict_mood_trend fit entries days_ahead =
     (if length entries < 7 then Inr None
      else
        let dates = map fst (trend_points entries);
            sentiments = map snd (trend_points entries)
        in if length dates < 3 then Inr None
           else
             (case fit dates sentiments of
                Inl err \<Rightarrow> Inr None
              | Inr line \<Rightarrow>
                  let last_day = last dates;
                      future_days = map (\<lambda>i. last_day + i) [1..days_ahead];
                      preds = map (line_at line) future_days
                  in if preds = [] then Inr None
                     else Inr (Some
                       \<lparr>days = future_days,
                        predictions = preds,
                        trend = (if hd preds < last preds then ''improving'' else ''declining''),
                        confidence = (if length dates < 14 then ''low''
                                      else if length dates < 30 then ''medium'' else ''high'')\<rparr>)))"

text \<open>
  The least-squares line through the points as \<open>LinearRegression\<close> computes it (slope 0
  when all offsets coincide). It stands for the library in the examples only.
\<close>

definition ols_fit :: regressor where
  "ols_fit xs ys =
     (let n = real (length xs);
          mx = sum_list (map real_of_int xs) / n;
          my = sum_list ys / n;
          sxx = sum_list (map (\<lambda>x. (real_of_int x - mx) * (real_of_int x - mx)) xs);
          sxy = sum_list (map (\<lambda>(x, y). (real_of_int x - mx) * (y - my)) (zip xs ys));
          slope = (if sxx = 0 then 0 else sxy / sxx)
      in Inr (slope, my - slope * mx))"

record time_patterns =
  morning_avg :: real
  evening_avg :: real
  insight :: string

text \<open>\<open>sum(xs)\<close> over sentiment scores: adding \<open>None\<close> raises \<open>TypeError\<close>.\<close>

fun py_sum :: "real option list \<Rightarrow> py_error + real" where
  "py_sum [] = Inr 0"
| "py_sum (None # xs) = Inl TypeError"
| "py_sum (Some x # xs) = (case py_sum xs of Inl e \<Rightarrow> Inl e | Inr s \<Rightarrow> Inr (x + s))"

definition analyze_time_patterns :: "DreamEntry list \<Rightarrow> py_error + time_patterns option" where
  "analyze_time_patterns entries =
     (let morning_dreams =
            map sentiment_score (filter (\<lambda>entry. hour (dream_date entry) < 12) entries);
          evening_dreams =
            map sentiment_score (filter (\<lambda>entry. \<not> hour (dream_date entry) < 12) entries)
      in if morning_dreams \<noteq> [] \<and> evening_dreams \<noteq> []
         then
           (case py_sum morning_dreams of
              Inl e \<Rightarrow> Inl e
            | Inr sm \<Rightarrow>
                (case py_sum evening_dreams of
                   Inl e \<Rightarrow> Inl e
                 | Inr se \<Rightarrow>
                     let m = sm / real (length morning_dreams);
                         ev = se / real (length evening_dreams)
                     in Inr (Some
                          \<lparr>morning_avg = m,
                           evening_avg = ev,
                           insight = (if ev < m then ''Morning dreams tend to be more positive''
                                      else ''Evening dreams tend to be more positive'')\<rparr>)))
         else Inr None)"

text \<open>Entries for the examples: day \<open>d\<close> at hour \<open>h\<close>, with a sentiment.\<close>

definition at_day :: "int \<Rightarrow> int \<Rightarrow> real option \<Rightarrow> DreamEntry" where
  "at_day d h s = sample_entry (d * us_per_day + h * us_per_hour) s None"

definition week_latest_first :: "DreamEntry list" where
  "week_latest_first =
     [at_day 6 0 (Some (3 / 5)), at_day 0 0 (Some 0), at_day 1 0 (Some (1 / 10)),
      at_day 2 0 (Some (1 / 5)), at_day 3 0 (Some (3 / 10)), at_day 4 0 (Some (2 / 5)),
      at_day 5 0 (Some (1 / 2))]"

definition week_in_order :: "DreamEntry list" where
  "week_in_order =
     [at_day 0 0 (Some 0), at_day 1 0 (Some (1 / 10)), at_day 2 0 (Some (1 / 5)),
      at_day 3 0 (Some (3 / 10)), at_day 4 0 (Some (2 / 5)), at_day 5 0 (Some (1 / 2)),
      at_day 6 0 (Some (3 / 5))]"

section \<open>predictor.py: generate\_personalized\_insights\<close>

text \<open>\<open>str(n)\<close> of a count, for the f-string on nightmares.\<close>

fun py_str :: "nat \<Rightarrow> string" where
  "py_str n =
     (if n < 10 then [char_of (48 + n)]
      else py_str (n div 10) @ [char_of (48 + n mod 10)])"

declare py_str.simps [simp del]

definition need_more_data_message :: string where
  "need_more_data_message =
     ''Keep recording your dreams! We need more data to generate personalized insights.''"

definition need_more_data_tips :: "string list" where
  "need_more_data_tips =
     [''Try to record dreams immediately upon waking'',
      ''Include as many details as possible'',
      ''Note your sleep quality and mood'']"

definition stress_reduction_rec :: string where
  "stress_reduction_rec = ''Consider stress-reduction techniques before bed''"

definition journaling_rec :: string where
  "journaling_rec = ''Try journaling worries before sleep''"

definition continue_routine_rec :: string where
  "continue_routine_rec = ''Continue your current sleep routine''"

definition relaxation_rec :: string where
  "relaxation_rec = ''Practice relaxation exercises before bed''"

definition screen_time_rec :: string where
  "screen_time_rec = ''Reduce screen time in the evening''"

definition professional_rec :: string where
  "professional_rec =
     ''Consider speaking with a healthcare professional if nightmares persist''"

definition reminder_rec :: string where
  "reminder_rec = ''Try setting a morning reminder to record dreams''"

definition detailed_records_rec :: string where
  "detailed_records_rec = ''Your detailed records will provide rich insights''"

record personal_stats =
  total_dreams :: nat
  stats_avg_sentiment :: real
  dreams_per_week :: real
  recent_stress :: real

text \<open>
  The two shapes of the dict returned: the message with its tips, or the insights,
  the recommendations and the stats (whose key \<open>avg_sentiment\<close> is \<open>stats_avg_sentiment\<close>
  here).
\<close>

datatype personalized =
  NeedMoreData string "string list"
| Personalized "string list" "string list" personal_stats

text \<open>\<open>sorted(entries, key=lambda x: x.dream_date)[-7:]\<close>\<close>

definition recent_entries_of :: "DreamEntry list \<Rightarrow> DreamEntry list" where
  "recent_entries_of entries =
     (let by_date = sort_key dream_date entries
      in drop (length by_date - 7) by_date)"

definition recent_sentiment_of :: "DreamEntry list \<Rightarrow> real" where
  "recent_sentiment_of entries =
     sum_truthy (map sentiment_score (recent_entries_of entries))
       / real (length (recent_entries_of entries))"

text \<open>\<open>e.sentiment_score and e.sentiment_score < -0.5\<close>\<close>

definition is_nightmare :: "DreamEntry \<Rightarrow> bool" where
  "is_nightmare e =
     (case sentiment_score e of None \<Rightarrow> False | Some s \<Rightarrow> s \<noteq> 0 \<and> s < - 0.5)"

definition generate_personalized_insights :: "DreamEntry list \<Rightarrow> py_error + personalized" where
  "generate_personalized_insights entries =
     (if length entries < 5
      then Inr (NeedMoreData need_more_data_message need_more_data_tips)
      else
        let recent_entries = recent_entries_of entries;
            recent_sentiment = recent_sentiment_of entries;
            (insights1, recs1) =
              (if recent_sentiment < - 0.3
               then ([''Your recent dreams show negative sentiment patterns''],
                     [stress_reduction_rec, journaling_rec])
               else if 0.3 < recent_sentiment
               then ([''Your recent dreams are predominantly positive!''],
                     [continue_routine_rec])
               else ([], []));
            stress = sum_truthy (map stress_level recent_entries)
                       / real (length recent_entries);
            (insights2, recs2) =
              (if 0.6 < stress
               then (insights1 @ [''High stress indicators detected in your dreams''],
                     recs1 @ [relaxation_rec, screen_time_rec])
               else (insights1, recs1));
            nightmare_count =
              sum_list (map (\<lambda>e. 1) (filter is_nightmare recent_entries));
            (insights3, recs3) =
              (if 3 \<le> nightmare_count
               then (insights2 @
                       [''You've had '' @ py_str nightmare_count @
                        '' nightmares in the past week''],
                     recs2 @ [professional_rec])
               else (insights2, recs2));
            date_range = days_between (dream_date (last entries)) (dream_date (entries ! 0));
            frequency = real (length entries) / real_of_int (max date_range 1) * 7;
            (insights4, recs4) =
              (if frequency < 2
               then (insights3 @ [''You're recording dreams infrequently''],
                     recs3 @ [reminder_rec])
               else if 5 < frequency
               then (insights3 @ [''Excellent dream recall! You're recording frequently''],
                     recs3 @ [detailed_records_rec])
               else (insights3, recs3))
        in Inr (Personalized insights4 recs4
                  \<lparr>total_dreams = length entries,
                   stats_avg_sentiment =
                     sum_truthy (map sentiment_score entries) / real (length entries),
                   dreams_per_week = py_round frequency 1,
                   recent_stress = py_round stress 2\<rparr>))"

text \<open>
  Example: fourteen daily entries whose only emotion is fear, the oldest seven of
  sentiment -1 and the newest seven of sentiment 0.
\<close>

definition fear_day :: "int \<Rightarrow> real \<Rightarrow> DreamEntry" where
  "fear_day d s =
     sample_entry (d * us_per_day) (Some s)
       (Some [(''joy'', 0), (''sadness'', 0), (''fear'', 1 / 2), (''anger'', 0),
              (''surprise'', 0), (''disgust'', 0), (''trust'', 0), (''anticipation'', 0)])"

definition fortnight :: "DreamEntry list" where
  "fortnight =
     [fear_day 0 (- 1), fear_day 1 (- 1), fear_day 2 (- 1), fear_day 3 (- 1),
      fear_day 4 (- 1), fear_day 5 (- 1), fear_day 6 (- 1), fear_day 7 0, fear_day 8 0,
      fear_day 9 0, fear_day 10 0, fear_day 11 0, fear_day 12 0, fear_day 13 0]"

section \<open>config.py and the lexicon of nlp\_analyzer.py\<close>

definition EMOTION_CATEGORIES :: "string list" where
  "EMOTION_CATEGORIES =
     [''joy'', ''sadness'', ''fear'', ''anger'', ''surprise'', ''disgust'', ''trust'',
      ''anticipation'']"

definition emotion_keywords :: "(string \<times> string list) list" where
  "emotion_keywords =
     [(''joy'', [''happy'', ''joyful'', ''excited'', ''delighted'', ''cheerful'', ''wonderful'',
                ''amazing'', ''love'', ''loved'', ''beautiful'', ''peaceful'', ''content'']),
      (''sadness'', [''sad'', ''unhappy'', ''depressed'', ''lonely'', ''crying'', ''tears'',
                    ''grief'', ''loss'', ''heartbroken'', ''miserable'', ''gloomy'']),
      (''fear'', [''afraid'', ''scared'', ''terrified'', ''anxious'', ''worried'', ''panic'',
                 ''nightmare'', ''horror'', ''frightened'', ''threatened'', ''danger'']),
      (''anger'', [''angry'', ''mad'', ''furious'', ''rage'', ''frustrated'', ''irritated'',
                  ''annoyed'', ''hostile'', ''aggressive'', ''violent'']),
      (''surprise'', [''surprised'', ''shocked'', ''amazed'', ''astonished'', ''stunned'',
                     ''unexpected'', ''sudden'', ''startled'']),
      (''disgust'', [''disgusted'', ''revolted'', ''repulsed'', ''nasty'', ''gross'',
                    ''horrible'', ''awful'', ''unpleasant'']),
      (''trust'', [''trust'', ''safe'', ''secure'', ''comfortable'', ''protected'',
                  ''confident'', ''reliable'']),
      (''anticipation'', [''waiting'', ''expecting'', ''anticipating'', ''looking forward'',
                         ''preparing'', ''ready'', ''hopeful''])]"

definition stress_keywords :: "string list" where
  "stress_keywords =
     [''chased'', ''running'', ''late'', ''test'', ''exam'', ''unprepared'',
      ''falling'', ''drowning'', ''trapped'', ''lost'', ''naked'', ''public'',
      ''teeth falling'', ''unable to move'', ''paralyzed'', ''screaming'']"

definition common_themes :: "(string \<times> string list) list" where
  "common_themes =
     [(''flying'', [''flying'', ''floating'', ''soaring'', ''air'']),
      (''falling'', [''falling'', ''dropping'', ''plunging'']),
      (''chase'', [''chased'', ''running from'', ''pursued'', ''escape'']),
      (''water'', [''water'', ''ocean'', ''sea'', ''river'', ''swimming'', ''drowning'']),
      (''death'', [''death'', ''dying'', ''dead'', ''funeral'']),
      (''school'', [''school'', ''class'', ''teacher'', ''exam'', ''test'']),
      (''work'', [''work'', ''office'', ''boss'', ''job'', ''meeting'']),
      (''family'', [''family'', ''mother'', ''father'', ''parent'', ''sibling'']),
      (''romance'', [''love'', ''kiss'', ''romantic'', ''date'', ''partner'']),
      (''animals'', [''dog'', ''cat'', ''animal'', ''bird'', ''snake'']),
      (''travel'', [''travel'', ''journey'', ''trip'', ''destination'']),
      (''home'', [''home'', ''house'', ''room'', ''apartment''])]"

section \<open>Python strings\<close>

text \<open>
  A text is a list of characters, each a code point below 256. \<open>py_isspace\<close> is
  \<open>str.isspace\<close> and \<open>py_lower\<close> is \<open>str.lower\<close> on these code points.
\<close>

definition py_isspace :: "char \<Rightarrow> bool" where
  "py_isspace c =
     (let n = (of_char c :: nat)
      in (9 \<le> n \<and> n \<le> 13) \<or> (28 \<le> n \<and> n \<le> 32) \<or> n = 133 \<or> n = 160)"

definition py_lower_char :: "char \<Rightarrow> char" where
  "py_lower_char c =
     (let n = (of_char c :: nat)
      in if (65 \<le> n \<and> n \<le> 90) \<or> (192 \<le> n \<and> n \<le> 222 \<and> n \<noteq> 215)
         then char_of (n + 32) else c)"

definition py_lower :: "string \<Rightarrow> string" where
  "py_lower text = map py_lower_char text"

definition py_strip :: "string \<Rightarrow> string" where
  "py_strip text = rev (dropWhile py_isspace (rev (dropWhile py_isspace text)))"

text \<open>\<open>text.split()\<close>: the maximal runs of characters that are not whitespace.\<close>

fun py_split_from :: "string \<Rightarrow> string \<Rightarrow> string list" where
  "py_split_from cur [] = (if cur = [] then [] else [cur])"
| "py_split_from cur (c # cs) =
     (if py_isspace c
      then (if cur = [] then py_split_from [] cs else cur # py_split_from [] cs)
      else py_split_from (cur @ [c]) cs)"

definition py_split :: "string \<Rightarrow> string list" where
  "py_split text = py_split_from [] text"

text \<open>\<open>keyword in text\<close>: the keyword starts at some position of the text.\<close>

fun starts_with :: "string \<Rightarrow> string \<Rightarrow> bool" where
  "starts_with [] text = True"
| "starts_with (k # ks) [] = False"
| "starts_with (k # ks) (c # cs) = (k = c \<and> starts_with ks cs)"

fun py_in :: "string \<Rightarrow> string \<Rightarrow> bool" where
  "py_in keyword [] = (keyword = [])"
| "py_in keyword (c # cs) = (starts_with keyword (c # cs) \<or> py_in keyword cs)"

text \<open>\<open>sep.join(xs)\<close>\<close>

fun py_join :: "string \<Rightarrow> string list \<Rightarrow> string" where
  "py_join sep [] = []"
| "py_join sep [x] = x"
| "py_join sep (x # y # ys) = x @ sep @ py_join sep (y # ys)"

section \<open>nlp\_analyzer.py: analyze\_dream\<close>

text \<open>
  What spaCy gives for a text: the tokens with their flags and part of speech, the
  named entities with their labels, the noun chunks.
\<close>

record token =
  tok_text :: string
  is_stop :: bool
  is_punct :: bool
  pos_tag :: string

record span =
  span_text :: string
  label :: string

record doc =
  tokens :: "token list"
  ents :: "span list"
  noun_chunks :: "string list"

text \<open>
  The libraries behind the analyzer, outside the repository: \<open>self.nlp(text)\<close>,
  \<open>self.vader.polarity_scores(text)['compound']\<close> and
  \<open>TextBlob(text).sentiment.polarity\<close>. Each call returns or raises.
\<close>

record nlp_env =
  nlp :: "string \<Rightarrow> py_error + doc"
  vader_compound :: "string \<Rightarrow> py_error + real"
  textblob_polarity :: "string \<Rightarrow> py_error + real"

record entities =
  people :: "string set"
  places :: "string set"
  organizations :: "string set"
  other :: "string set"
  symbols :: "string set"

text \<open>The dict \<open>analyze_dream\<close> returns; the keys carry the prefix \<open>res_\<close> here.\<close>

record analysis =
  res_sentiment_score :: real
  res_emotions :: "(string \<times> real) list"
  res_entities :: entities
  res_themes :: "string list"
  res_dream_intensity :: real
  res_stress_level :: real

definition analyze_sentiment :: "nlp_env \<Rightarrow> string \<Rightarrow> py_error + real" where
  "analyze_sentiment env text =
     (case vader_compound env text of
        Inl e \<Rightarrow> Inl e
      | Inr vader \<Rightarrow>
          (case textblob_polarity env text of
             Inl e \<Rightarrow> Inl e
           | Inr textblob \<Rightarrow> Inr (py_round ((vader + textblob) / 2) 3)))"

text \<open>\<open>sum(1 for keyword in keywords if keyword in text_lower)\<close>\<close>

definition keyword_matches :: "string list \<Rightarrow> string \<Rightarrow> nat" where
  "keyword_matches keywords text_lower =
     sum_list (map (\<lambda>keyword. 1) (filter (\<lambda>keyword. py_in keyword text_lower) keywords))"

definition detect_emotions :: "nlp_env \<Rightarrow> string \<Rightarrow> py_error + (string \<times> real) list" where
  "detect_emotions env text =
     (let text_lower = py_lower text
      in case nlp env text of
           Inl e \<Rightarrow> Inl e
         | Inr d \<Rightarrow>
             let n = length (filter (\<lambda>t. \<not> is_stop t \<and> \<not> is_punct t) (tokens d));
                 word_count = (if n = 0 then 1 else n)
             in Inr (map (\<lambda>(emotion, keywords).
                       (emotion,
                        py_round (min (real (keyword_matches keywords text_lower)
                                         / (real word_count * 0.1)) 1.0) 3))
                     emotion_keywords))"

text \<open>The list \<open>nouns\<close> of \<open>_extract_entities\<close>.\<close>

definition nouns_of :: "doc \<Rightarrow> string list" where
  "nouns_of d =
     map (\<lambda>t. py_lower (tok_text t))
       (filter (\<lambda>t. pos_tag t = ''NOUN'' \<and> \<not> is_stop t \<and> 3 < length (tok_text t)) (tokens d))"

definition extract_entities :: "nlp_env \<Rightarrow> string \<Rightarrow> py_error + entities" where
  "extract_entities env text =
     (case nlp env text of
        Inl e \<Rightarrow> Inl e
      | Inr d \<Rightarrow>
          let stripped = (\<lambda>es. map (\<lambda>ent. py_strip (span_text ent)) es);
              is_place = (\<lambda>ent. label ent \<in> set [''GPE'', ''LOC'', ''FAC''])
          in Inr \<lparr>people = set (stripped (filter (\<lambda>ent. label ent = ''PERSON'') (ents d))),
                  places = set (stripped (filter (\<lambda>ent. label ent \<noteq> ''PERSON'' \<and> is_place ent)
                                            (ents d))),
                  organizations =
                    set (stripped (filter (\<lambda>ent. label ent \<noteq> ''PERSON'' \<and> \<not> is_place ent \<and>
                                                  label ent = ''ORG'') (ents d))),
                  other =
                    set (stripped (filter (\<lambda>ent. label ent \<noteq> ''PERSON'' \<and> \<not> is_place ent \<and>
                                                  label ent \<noteq> ''ORG'') (ents d))),
                  symbols = set (take 10 (nouns_of d))\<rparr>)"

definition identify_themes :: "nlp_env \<Rightarrow> string \<Rightarrow> py_error + string list" where
  "identify_themes env text =
     (case nlp env text of
        Inl e \<Rightarrow> Inl e
      | Inr d \<Rightarrow>
          let text_lower = py_lower text
          in Inr (map fst
                   (filter (\<lambda>(theme, keywords). list_ex (\<lambda>keyword. py_in keyword text_lower) keywords)
                      common_themes)))"

definition calculate_intensity :: "string \<Rightarrow> (string \<times> real) list \<Rightarrow> real" where
  "calculate_intensity text emotion_scores =
     (let word_count = length (py_split text);
          exclamation_count = count_list text CHR ''!'';
          question_count = count_list text CHR ''?'';
          emotion_intensity = sum_list (map snd emotion_scores);
          intensity = min ((real word_count / 500) * 0.3 +
                           (real exclamation_count / 10) * 0.2 +
                           (real question_count / 10) * 0.1 +
                           emotion_intensity * 0.4) 1.0
      in py_round intensity 3)"

definition detect_stress :: "nlp_env \<Rightarrow> string \<Rightarrow> py_error + real" where
  "detect_stress env text =
     (let text_lower = py_lower text;
          stress_matches = keyword_matches stress_keywords text_lower
      in case analyze_sentiment env text of
           Inl e \<Rightarrow> Inl e
         | Inr sentiment \<Rightarrow>
             let negative_sentiment = max 0 (- sentiment);
                 level = min ((real stress_matches / 5) * 0.6 + negative_sentiment * 0.4) 1.0
             in Inr (py_round level 3))"

definition empty_analysis :: analysis where
  "empty_analysis =
     \<lparr>res_sentiment_score = 0,
      res_emotions = map (\<lambda>emotion. (emotion, 0)) EMOTION_CATEGORIES,
      res_entities = \<lparr>people = set [], places = set [], organizations = set [],
                      other = set [], symbols = set []\<rparr>,
      res_themes = [],
      res_dream_intensity = 0,
      res_stress_level = 0\<rparr>"

text \<open>\<open>content\<close> may be \<open>None\<close>: \<open>not content\<close> holds for \<open>None\<close> and for the empty text.\<close>

definition analyze_dream :: "nlp_env \<Rightarrow> string option \<Rightarrow> py_error + analysis" where
  "analyze_dream env content =
     (case content of
        None \<Rightarrow> Inr empty_analysis
      | Some text \<Rightarrow>
          if text = [] \<or> py_strip text = [] then Inr empty_analysis
          else
            (case analyze_sentiment env text of Inl e \<Rightarrow> Inl e | Inr sentiment \<Rightarrow>
            (case detect_emotions env text of Inl e \<Rightarrow> Inl e | Inr emotion_scores \<Rightarrow>
            (case extract_entities env text of Inl e \<Rightarrow> Inl e | Inr entity_sets \<Rightarrow>
            (case identify_themes env text of Inl e \<Rightarrow> Inl e | Inr theme_list \<Rightarrow>
            (case detect_stress env text of Inl e \<Rightarrow> Inl e | Inr stress \<Rightarrow>
               Inr \<lparr>res_sentiment_score = sentiment,
                    res_emotions = emotion_scores,
                    res_entities = entity_sets,
                    res_themes = theme_list,
                    res_dream_intensity = calculate_intensity text emotion_scores,
                    res_stress_level = stress\<rparr>))))))"

text \<open>What the specification's sentences about the emotion scores speak of: a keyword
  occurs in a text when the text is some prefix, the keyword, some suffix.\<close>

definition occurs_in :: "string \<Rightarrow> string \<Rightarrow> bool" where
  "occurs_in keyword text = (\<exists>pre post. text = pre @ keyword @ post)"

definition spec_word_count :: "doc \<Rightarrow> nat" where
  "spec_word_count d =
     max 1 (length (filter (\<lambda>t. \<not> is_stop t \<and> \<not> is_punct t) (tokens d)))"

text \<open>Examples: libraries that raise on every call; a text of nineteen nouns, ten of
  them distinct, with the tokens spaCy gives for it; a text of twenty words.\<close>

definition failing_env :: nlp_env where
  "failing_env =
     \<lparr>nlp = (\<lambda>text. Inl LibraryError),
      vader_compound = (\<lambda>text. Inl LibraryError),
      textblob_polarity = (\<lambda>text. Inl LibraryError)\<rparr>"

definition noun :: "string \<Rightarrow> token" where
  "noun w = \<lparr>tok_text = w, is_stop = False, is_punct = False, pos_tag = ''NOUN''\<rparr>"

definition house_doc :: doc where
  "house_doc =
     \<lparr>tokens = map noun
                [''house'', ''house'', ''house'', ''house'', ''house'', ''house'', ''house'',
                 ''house'', ''house'', ''house'', ''tree'', ''river'', ''mountain'', ''castle'',
                 ''garden'', ''forest'', ''bridge'', ''window'', ''candle''],
      ents = [], noun_chunks = []\<rparr>"

definition house_text :: string where
  "house_text = py_join '' '' (map tok_text (tokens house_doc))"

definition house_env :: nlp_env where
  "house_env =
     \<lparr>nlp = (\<lambda>text. Inr house_doc),
      vader_compound = (\<lambda>text. Inr 0),
      textblob_polarity = (\<lambda>text. Inr 0)\<rparr>"

definition happy_doc :: doc where
  "happy_doc =
     \<lparr>tokens = map noun
                [''Happy'', ''happy'', ''walk'', ''walk'', ''walk'', ''walk'', ''walk'', ''walk'',
                 ''walk'', ''walk'', ''walk'', ''walk'', ''walk'', ''walk'', ''walk'', ''walk'',
                 ''walk'', ''walk'', ''walk'', ''walk''],
      ents = [], noun_chunks = []\<rparr>"

definition happy_text :: string where
  "happy_text = py_join '' '' (map tok_text (tokens happy_doc))"

definition happy_env :: nlp_env where
  "happy_env =
     \<lparr>nlp = (\<lambda>text. Inr happy_doc),
      vader_compound = (\<lambda>text. Inr 0),
      textblob_polarity = (\<lambda>text. Inr 0)\<rparr>"

section \<open>app.py: \_generate\_recommendations\<close>

definition negative_sentiment_rec :: string where
  "negative_sentiment_rec =
     ''Your dreams show negative sentiment. Consider stress-reduction practices before bed.''"

definition positive_sentiment_rec :: string where
  "positive_sentiment_rec =
     ''Your dreams are predominantly positive. Keep up your good sleep hygiene!''"

definition increasing_stress_rec :: string where
  "increasing_stress_rec =
     ''Stress levels in your dreams are increasing. Try meditation or relaxation exercises.''"

definition fear_rec :: string where
  "fear_rec =
     ''Fear is prominent in your dreams. Consider journaling before bed to process anxieties.''"

definition sadness_rec :: string where
  "sadness_rec =
     ''Notice sadness themes. Reach out to friends or consider speaking with a counselor.''"

definition balanced_rec :: string where
  "balanced_rec =
     ''Your dream patterns look balanced. Continue regular journaling for best insights.''"

text \<open>The list \<open>recommendations\<close> as it stands before the final \<open>join\<close>.\<close>

definition recommendation_items :: "insights \<Rightarrow> string list" where
  "recommendation_items ins =
     (let by_sentiment =
            (if avg_sentiment ins < - 0.3 then [negative_sentiment_rec]
             else if 0.3 < avg_sentiment ins then [positive_sentiment_rec]
             else []);
          by_stress =
            (if stress_trend ins = ''increasing'' then [increasing_stress_rec] else []);
          by_emotion =
            (if dominant_emotion ins = ''fear'' then [fear_rec]
             else if dominant_emotion ins = ''sadness'' then [sadness_rec]
             else []);
          recommendations = by_sentiment @ by_stress @ by_emotion
      in if recommendations = [] then [balanced_rec] else recommendations)"

definition generate_recommendations :: "insights \<Rightarrow> string" where
  "generate_recommendations ins = py_join '' '' (recommendation_items ins)"

text \<open>Example: five entries of sentiment -0.5 whose only emotion is fear.\<close>

definition fearful :: DreamEntry where
  "fearful =
     sample_entry 0 (Some (- 1 / 2))
       (Some [(''joy'', 0), (''sadness'', 0), (''fear'', 1 / 2), (''anger'', 0),
              (''surprise'', 0), (''disgust'', 0), (''trust'', 0), (''anticipation'', 0)])"

definition fearful_entries :: "DreamEntry list" where
  "fearful_entries = [fearful, fearful, fearful, fearful, fearful]"

definition fearful_insights :: insights where
  "fearful_insights =
     \<lparr>total_entries = 5, avg_sentiment = - 0.5, dominant_emotion = ''fear'',
      emotion_distribution =
        [(''joy'', 0), (''sadness'', 0), (''fear'', 1), (''anger'', 0), (''surprise'', 0),
         (''disgust'', 0), (''trust'', 0), (''anticipation'', 0)],
      recurring_themes = [],
      stress_trend = ''insufficient data''\<rparr>"

section \<open>Rounding and sums\<close>

lemma sum_truthy_present:
  "sum_truthy vs = sum_list (map the (filter (\<lambda>v. v \<noteq> None) vs))"
  by (induction vs) (auto simp: sum_truthy_def truthy_def split: option.splits)

lemma round_half_even_bounds:
  "\<bar>of_int (round_half_even x) - x\<bar> \<le> 1 / 2"
  unfolding round_half_even_def Let_def
  by (auto simp: abs_le_iff)

lemma py_round3_close: "\<bar>py_round x 3 - x\<bar> \<le> 1 / 2000"
proof -
  have "\<bar>of_int (round_half_even (x * 1000)) - x * 1000\<bar> \<le> 1 / 2"
    by (rule round_half_even_bounds)
  then show ?thesis by (simp add: py_round_def abs_le_iff field_simps)
qed

lemma py_round3_decimal: "\<exists>k::int. py_round x 3 = real_of_int k / 1000"
  by (simp add: py_round_def)

lemma py_round_zero: "py_round 0 n = 0"
  by (simp add: py_round_def round_half_even_def)

lemma rounded_shares_close:
  "\<bar>sum_list (map snd (map (\<lambda>(emotion, score). (emotion, py_round (score / t) 3)) xs))
     - sum_list (map snd xs) / t\<bar> \<le> real (length xs) / 2000"
proof (induction xs)
  case Nil
  then show ?case by simp
next
  case (Cons x xs)
  obtain k s where x: "x = (k, s)" by (cases x)
  let ?f = "\<lambda>(emotion, score). (emotion, py_round (score / t) 3)"
  have a: "\<bar>py_round (s / t) 3 - s / t\<bar> \<le> 1 / 2000" by (rule py_round3_close)
  have "sum_list (map snd (map ?f (x # xs))) - sum_list (map snd (x # xs)) / t =
        (py_round (s / t) 3 - s / t) +
        (sum_list (map snd (map ?f xs)) - sum_list (map snd xs) / t)"
    by (simp add: x add_divide_distrib)
  moreover have "real (length (x # xs)) / 2000 = 1 / 2000 + real (length xs) / 2000"
    by (simp add: add_divide_distrib)
  ultimately show ?case using a Cons.IH by linarith
qed

lemma rounded_shares_each:
  "list_all2 (\<lambda>(emotion, share) (name, score).
       emotion = name \<and> \<bar>share - score / t\<bar> \<le> 0.0005 \<and>
       (\<exists>k::int. share = real_of_int k / 1000))
     (map (\<lambda>(emotion, score). (emotion, py_round (score / t) 3)) xs) xs"
proof (induction xs)
  case Nil
  then show ?case by simp
next
  case (Cons x xs)
  obtain k s where x: "x = (k, s)" by (cases x)
  have "\<bar>py_round (s / t) 3 - s / t\<bar> \<le> 0.0005"
    using py_round3_close [of "s / t"] by simp
  then show ?case
    using Cons.IH py_round3_decimal [of "s / t"] by (simp add: x)
qed

lemma aggregate_thirds:
  "aggregate_emotions thirds =
     [(''joy'', 1 / 2), (''sadness'', 0), (''fear'', 1 / 2), (''anger'', 1 / 2),
      (''surprise'', 0), (''disgust'', 0), (''trust'', 0), (''anticipation'', 0)]"
  by (simp add: thirds_def aggregate_emotions_def add_entry_emotions_def sample_entry_def)

lemma thirds_nonempty: "thirds \<noteq> []"
  by (simp add: thirds_def)

section \<open>The predictor's data\<close>

lemma length_trend_points:
  "length (trend_points entries) = length (filter (\<lambda>entry. sentiment_score entry \<noteq> None) entries)"
  by (simp add: trend_points_def filter_sort)

lemma upto_empty_iff: "([1..d] = []) = (d < 1)"
  by (simp add: upto.simps)

lemma trend_points_week_in_order:
  "trend_points week_in_order =
     [(0, 0), (1, 1 / 10), (2, 1 / 5), (3, 3 / 10), (4, 2 / 5), (5, 1 / 2), (6, 3 / 5)]"
  by (simp add: trend_points_def week_in_order_def at_day_def sample_entry_def
      days_between_def us_per_day_def us_per_hour_def del: not_None_eq)

lemma trend_points_week_latest_first:
  "trend_points week_latest_first =
     [(-6, 0), (-5, 1 / 10), (-4, 1 / 5), (-3, 3 / 10), (-2, 2 / 5), (-1, 1 / 2), (0, 3 / 5)]"
  by (simp add: trend_points_def week_latest_first_def at_day_def sample_entry_def
      days_between_def us_per_day_def us_per_hour_def del: not_None_eq)

lemma ols_week_in_order:
  "ols_fit [0, 1, 2, 3, 4, 5, 6] [0, 1 / 10, 1 / 5, 3 / 10, 2 / 5, 1 / 2, 3 / 5] = Inr (1 / 10, 0)"
  by (simp add: ols_fit_def Let_def)

lemma ols_week_latest_first:
  "ols_fit [-6, -5, -4, -3, -2, -1, 0] [0, 1 / 10, 1 / 5, 3 / 10, 2 / 5, 1 / 2, 3 / 5] = Inr (1 / 10, 3 / 5)"
  by (simp add: ols_fit_def Let_def)

lemma length_week_in_order: "length week_in_order = 7"
  by (simp add: week_in_order_def)

lemma scored_week_in_order:
  "length (filter (\<lambda>entry. sentiment_score entry \<noteq> None) week_in_order) = 7"
  using length_trend_points [of week_in_order]
  by (simp add: trend_points_week_in_order del: not_None_eq)

lemma length_week_latest_first: "length week_latest_first = 7"
  by (simp add: week_latest_first_def)

text \<open>What a forecast holds, and what the time-of-day analysis does when every
  entry has a sentiment.\<close>

lemma forecast_shape:
  assumes "predict_mood_trend fit entries days_ahead = Inr (Some f)"
  shows "days f = map (\<lambda>i. last (map fst (trend_points entries)) + i) [1..days_ahead] \<and>
         length (predictions f) = length (days f) \<and>
         trend f = (if hd (predictions f) < last (predictions f) then ''improving''
                    else ''declining'')"
  using assms
  by (auto simp: predict_mood_trend_def Let_def split: if_splits sum.splits)

lemma py_sum_scores:
  assumes "list_all (\<lambda>entry. sentiment_score entry \<noteq> None) es"
  shows "py_sum (map sentiment_score es) =
           Inr (sum_list (map (\<lambda>entry. the (sentiment_score entry)) es))"
  using assms by (induction es) auto

lemma time_patterns_when_scored:
  assumes "list_all (\<lambda>entry. sentiment_score entry \<noteq> None) entries"
  shows "\<exists>r. analyze_time_patterns entries = Inr r \<and>
           (r = None \<longleftrightarrow>
              filter (\<lambda>entry. hour (dream_date entry) < 12) entries = [] \<or>
              filter (\<lambda>entry. \<not> hour (dream_date entry) < 12) entries = [])"
proof -
  have a: "list_all (\<lambda>entry. sentiment_score entry \<noteq> None) (filter P entries)" for P
    using assms by (simp add: list_all_iff)
  show ?thesis
    by (simp add: analyze_time_patterns_def Let_def py_sum_scores [OF a])
qed

section \<open>Strings and keywords\<close>

lemma py_strip_blank:
  assumes "list_all py_isspace text"
  shows "py_strip text = []"
proof -
  have d: "dropWhile py_isspace text = []"
    using assms by (simp add: list_all_iff)
  show ?thesis unfolding py_strip_def d by simp
qed

lemma starts_with_iff: "starts_with k t \<longleftrightarrow> (\<exists>post. t = k @ post)"
  by (induction k t rule: starts_with.induct) auto

lemma py_in_iff: "py_in k t \<longleftrightarrow> occurs_in k t"
proof (induction t)
  case Nil
  then show ?case by (auto simp: occurs_in_def)
next
  case (Cons c cs)
  show ?case
  proof
    assume "py_in k (c # cs)"
    then consider "starts_with k (c # cs)" | "py_in k cs" by auto
    then show "occurs_in k (c # cs)"
    proof cases
      case 1
      then obtain post where "c # cs = k @ post" by (auto simp: starts_with_iff)
      then have "c # cs = [] @ k @ post" by simp
      then show ?thesis unfolding occurs_in_def by blast
    next
      case 2
      then obtain pre post where "cs = pre @ k @ post" using Cons.IH by (auto simp: occurs_in_def)
      then have "c # cs = (c # pre) @ k @ post" by simp
      then show ?thesis unfolding occurs_in_def by blast
    qed
  next
    assume "occurs_in k (c # cs)"
    then obtain pre post where p: "c # cs = pre @ k @ post" by (auto simp: occurs_in_def)
    show "py_in k (c # cs)"
    proof (cases pre)
      case Nil
      then have "starts_with k (c # cs)" using p by (auto simp: starts_with_iff)
      then show ?thesis by simp
    next
      case (Cons a pre')
      then have "cs = pre' @ k @ post" using p by simp
      then have "occurs_in k cs" unfolding occurs_in_def by blast
      then show ?thesis using Cons.IH by simp
    qed
  qed
qed

lemma keyword_matches_length:
  "keyword_matches keywords t = length (filter (\<lambda>keyword. py_in keyword t) keywords)"
  by (induction "keywords") (auto simp: keyword_matches_def)

lemma keyword_matches_card:
  assumes "distinct keywords"
  shows "keyword_matches keywords t = card {k \<in> set keywords. occurs_in k t}"
proof -
  have "distinct (filter (\<lambda>keyword. py_in keyword t) keywords)"
    using assms by simp
  then have "card (set (filter (\<lambda>keyword. py_in keyword t) keywords)) =
             length (filter (\<lambda>keyword. py_in keyword t) keywords)"
    by (rule distinct_card)
  moreover have "set (filter (\<lambda>keyword. py_in keyword t) keywords) =
                 {k \<in> set keywords. occurs_in k t}"
    by (auto simp: py_in_iff)
  ultimately show ?thesis by (simp add: keyword_matches_length)
qed

lemma emotion_names_distinct: "distinct (map fst emotion_keywords)"
  by (simp add: emotion_keywords_def)

lemma emotion_keywords_each_distinct:
  "list_all (\<lambda>(emotion, keywords). distinct keywords) emotion_keywords"
  by (simp add: emotion_keywords_def)

lemma map_of_scored:
  assumes "distinct (map fst xs)" and "(k, v) \<in> set xs"
  shows "map_of (map (\<lambda>(emotion, keywords). (emotion, g keywords)) xs) k = Some (g v)"
proof -
  have "map_of xs k = Some v" using assms by (rule map_of_is_SomeI)
  moreover have "map (\<lambda>(emotion, keywords). (emotion, g keywords)) xs =
                 map (\<lambda>(k, v). (k, g v)) xs" by simp
  ultimately show ?thesis by (simp only: map_of_map) simp
qed

lemma joy_in_lexicon:
  "(''joy'', [''happy'', ''joyful'', ''excited'', ''delighted'', ''cheerful'', ''wonderful'',
              ''amazing'', ''love'', ''loved'', ''beautiful'', ''peaceful'', ''content''])
     \<in> set emotion_keywords"
  by (simp add: emotion_keywords_def)

lemma happy_text_lower:
  "py_lower happy_text =
     ''happy happy walk walk walk walk walk walk walk walk walk walk walk walk walk walk walk walk walk walk''"
  by (simp add: happy_text_def happy_doc_def noun_def py_lower_def py_lower_char_def
      char_of_eq_iff)

lemma happy_joy_matches:
  "card {k \<in> set [''happy'', ''joyful'', ''excited'', ''delighted'', ''cheerful'', ''wonderful'',
              ''amazing'', ''love'', ''loved'', ''beautiful'', ''peaceful'', ''content'']. occurs_in k (py_lower happy_text)} = 1"
proof -
  have "distinct [''happy'', ''joyful'', ''excited'', ''delighted'', ''cheerful'', ''wonderful'',
              ''amazing'', ''love'', ''loved'', ''beautiful'', ''peaceful'', ''content'']"
    by simp
  from keyword_matches_card [OF this, of "py_lower happy_text", symmetric]
  show ?thesis
    by (simp add: keyword_matches_length happy_text_lower)
qed

lemma happy_word_count: "spec_word_count happy_doc = 20"
  by (simp add: spec_word_count_def happy_doc_def noun_def)

lemma house_nouns:
  "nouns_of house_doc =
     [''house'', ''house'', ''house'', ''house'', ''house'', ''house'', ''house'', ''house'',
      ''house'', ''house'', ''tree'', ''river'', ''mountain'', ''castle'', ''garden'', ''forest'', ''bridge'', ''window'',
      ''candle'']"
  by (simp add: nouns_of_def house_doc_def noun_def py_lower_def py_lower_char_def)

lemma house_ents: "ents house_doc = []"
  by (simp add: house_doc_def)

lemma house_distinct_nouns: "card (set (nouns_of house_doc)) = 10"
  by (simp add: house_nouns)

section \<open>The recommendations\<close>

lemma negative_in_short:
  "py_in negative_sentiment_rec (py_join '' '' [negative_sentiment_rec, fear_rec])"
  by code_simp

lemma fear_in_short:
  "py_in fear_rec (py_join '' '' [negative_sentiment_rec, fear_rec])"
  by code_simp

lemma balanced_not_in_short:
  "\<not> py_in balanced_rec (py_join '' '' [negative_sentiment_rec, fear_rec])"
  by code_simp

lemma negative_in_long:
  "py_in negative_sentiment_rec
     (py_join '' '' [negative_sentiment_rec, increasing_stress_rec, fear_rec])"
  by code_simp

lemma fear_in_long:
  "py_in fear_rec (py_join '' '' [negative_sentiment_rec, increasing_stress_rec, fear_rec])"
  by code_simp

lemma balanced_not_in_long:
  "\<not> py_in balanced_rec
     (py_join '' '' [negative_sentiment_rec, increasing_stress_rec, fear_rec])"
  by code_simp

lemma recs_differ:
  "balanced_rec \<noteq> negative_sentiment_rec" "balanced_rec \<noteq> fear_rec"
  "balanced_rec \<noteq> increasing_stress_rec"
  by (simp_all add: balanced_rec_def negative_sentiment_rec_def fear_rec_def
      increasing_stress_rec_def)

lemma generate_insights_fearful:
  "generate_insights fearful_entries = Inr (Some fearful_insights)"
  by (simp add: generate_insights_def fearful_entries_def fearful_def fearful_insights_def
      sample_entry_def Let_def sum_truthy_def truthy_def aggregate_emotions_def
      add_entry_emotions_def dominant_of_def distribution_of_def most_common_def
      all_themes_of_def stress_trend_of_def py_round_def round_half_even_def)

text \<open>
  What \<open>_generate_recommendations\<close> of app.py makes of a summary whose average
  sentiment is -0.5 and whose dominant emotion is fear: the stress-reduction sentence
  and the sentence for fear, and not the default sentence on balanced patterns.
\<close>

lemma summary_recommendations_fear:
  assumes "avg_sentiment ins = - 0.5"
    and "dominant_emotion ins = ''fear''"
  shows "negative_sentiment_rec \<in> set (recommendation_items ins) \<and>
         fear_rec \<in> set (recommendation_items ins) \<and>
         balanced_rec \<notin> set (recommendation_items ins) \<and>
         occurs_in negative_sentiment_rec (generate_recommendations ins) \<and>
         occurs_in fear_rec (generate_recommendations ins) \<and>
         \<not> occurs_in balanced_rec (generate_recommendations ins)"
proof (cases "stress_trend ins = ''increasing''")
  case True
  have i: "recommendation_items ins = [negative_sentiment_rec, increasing_stress_rec, fear_rec]"
    using assms True by (simp add: recommendation_items_def)
  show ?thesis
    unfolding generate_recommendations_def i py_in_iff [symmetric]
    using negative_in_long fear_in_long balanced_not_in_long recs_differ by simp
next
  case False
  have i: "recommendation_items ins = [negative_sentiment_rec, fear_rec]"
    using assms False by (simp add: recommendation_items_def)
  show ?thesis
    unfolding generate_recommendations_def i py_in_iff [symmetric]
    using negative_in_short fear_in_short balanced_not_in_short recs_differ by simp
qed

section \<open>The personalized insights\<close>

lemma personal_recs_not_balanced:
  "\<not> py_in ''balanced'' stress_reduction_rec" "\<not> py_in ''balanced'' journaling_rec"
  "\<not> py_in ''balanced'' relaxation_rec" "\<not> py_in ''balanced'' screen_time_rec"
  "\<not> py_in ''balanced'' professional_rec" "\<not> py_in ''balanced'' reminder_rec"
  "\<not> py_in ''balanced'' detailed_records_rec"
  by code_simp+

lemma personal_recs_differ:
  "stress_reduction_rec \<noteq> balanced_rec" "journaling_rec \<noteq> balanced_rec"
  "relaxation_rec \<noteq> balanced_rec" "screen_time_rec \<noteq> balanced_rec"
  "professional_rec \<noteq> balanced_rec" "reminder_rec \<noteq> balanced_rec"
  "detailed_records_rec \<noteq> balanced_rec"
  by (simp_all add: stress_reduction_rec_def journaling_rec_def relaxation_rec_def
      screen_time_rec_def professional_rec_def reminder_rec_def detailed_records_rec_def
      balanced_rec_def)

lemma recent_fearful: "recent_entries_of fearful_entries = fearful_entries"
  by (simp add: recent_entries_of_def fearful_entries_def fearful_def sample_entry_def)

lemma fortnight_sorted: "sort_key dream_date fortnight = fortnight"
  by (simp add: fortnight_def fear_day_def sample_entry_def us_per_day_def)

lemma recent_fortnight:
  "recent_entries_of fortnight =
     [fear_day 7 0, fear_day 8 0, fear_day 9 0, fear_day 10 0, fear_day 11 0, fear_day 12 0,
      fear_day 13 0]"
  unfolding recent_entries_of_def fortnight_sorted Let_def
  by (simp add: fortnight_def)

section \<open>The aggregator (generate\_insights)\<close>

text \<open>
  C1 (as the code has it). For every non-empty sequence of entries \<open>generate_insights\<close>
  returns a record whose \<open>avg_sentiment\<close> is the sum of the sentiments that are present
  divided by the number of all entries, rounded to 3 decimals (a value of 3 decimals
  within 0.0005 of the quotient): an entry without sentiment is left out of the
  numerator and still counted in the denominator. The denominator is the length of a
  non-empty sequence, so there is no division by zero, and when every entry lacks a
  sentiment the result is 0.
\<close>

theorem avg_sentiment_divides_by_all:
  assumes "entries \<noteq> []"
  shows "\<exists>ins. generate_insights entries = Inr (Some ins) \<and>
           \<bar>avg_sentiment ins
              - sum_list (present_sentiments entries) / real (length entries)\<bar> \<le> 0.0005 \<and>
           (\<exists>k::int. avg_sentiment ins = real_of_int k / 1000) \<and>
           (present_sentiments entries = [] \<longrightarrow> avg_sentiment ins = 0)"
proof -
  let ?q = "sum_list (present_sentiments entries) / real (length entries)"
  have g: "generate_insights entries =
        Inr (Some \<lparr>total_entries = length entries,
                   avg_sentiment = py_round ?q 3,
                   dominant_emotion = dominant_of (aggregate_emotions entries),
                   emotion_distribution = distribution_of (aggregate_emotions entries),
                   recurring_themes = map fst (most_common 5 (all_themes_of entries)),
                   stress_trend =
                     stress_trend_of
                       (map the (filter (\<lambda>v. v \<noteq> None) (map stress_level entries)))\<rparr>)"
    using assms
    by (simp add: generate_insights_def Let_def sum_truthy_present present_sentiments_def)
  have c: "\<bar>py_round ?q 3 - ?q\<bar> \<le> 0.0005"
    using py_round3_close [of ?q] by simp
  have z: "present_sentiments entries = [] \<longrightarrow> py_round ?q 3 = 0"
    by (simp add: py_round_zero)
  show ?thesis
    using g c z py_round3_decimal [of ?q] by simp
qed

theorem avg_sentiment_divides_by_all_witness:
  "\<exists>ins. generate_insights [sample_entry 0 (Some 1) None, sample_entry 0 None None]
           = Inr (Some ins) \<and>
         \<bar>avg_sentiment ins - 1 / 2\<bar> \<le> 0.0005"
  using avg_sentiment_divides_by_all
    [of "[sample_entry 0 (Some 1) None, sample_entry 0 None None]"]
  by (auto simp: present_sentiments_def sample_entry_def)

text \<open>
  C1 (as the claim states it) fails: of two entries, one with sentiment 1 and one with
  none, the mean over the entries with a sentiment is 1, and \<open>avg_sentiment\<close> is 1/2.
\<close>

theorem avg_sentiment_not_mean_of_present:
  "generate_insights [sample_entry 0 (Some 1) None, sample_entry 0 None None] =
     Inr (Some \<lparr>total_entries = 2, avg_sentiment = 1 / 2, dominant_emotion = ''neutral'',
                emotion_distribution = [], recurring_themes = [],
                stress_trend = ''insufficient data''\<rparr>) \<and>
   spec_mean_present [sample_entry 0 (Some 1) None, sample_entry 0 None None] = 1"
  by (simp add: generate_insights_def Let_def sum_truthy_def truthy_def sample_entry_def
      spec_mean_present_def present_sentiments_def py_round_def round_half_even_def
      aggregate_emotions_def add_entry_emotions_def dominant_of_def distribution_of_def
      most_common_def all_themes_of_def stress_trend_of_def)

text \<open>
  C2 (as the code has it). \<open>generate_insights\<close> on the empty sequence raises nothing:
  it returns \<open>None\<close>; on every other sequence it returns a record. So \<open>None\<close> is
  returned exactly for the empty input, and no input makes the call fail.
\<close>

theorem generate_insights_none_iff_empty:
  "(generate_insights entries = Inr None \<longleftrightarrow> entries = []) \<and>
   \<not> isl (generate_insights entries)"
  by (simp add: generate_insights_def Let_def)

theorem generate_insights_none_iff_empty_witness:
  "generate_insights [] = Inr None \<and>
   generate_insights [sample_entry 0 None None] \<noteq> Inr None \<and>
   \<not> isl (generate_insights [sample_entry 0 None None])"
  using generate_insights_none_iff_empty [of "[]"]
    generate_insights_none_iff_empty [of "[sample_entry 0 None None]"]
  by simp

text \<open>
  C2 (as the claim states it) fails: the call on the empty sequence does not raise,
  it returns normally, and the value returned is \<open>None\<close>.
\<close>

theorem generate_insights_empty_no_error:
  "generate_insights [] = Inr None \<and> \<not> isl (generate_insights [])"
  by (simp add: generate_insights_def)

text \<open>
  C7 (as the code has it). When the summed emotion total is positive, the distribution
  has one value for each aggregated emotion, in the same order, each a value of 3
  decimals within 0.0005 of the emotion's share of the total (the share rounded to 3
  decimals), and the values sum to 1 within 0.0005 times the number of emotions. When
  the total is not positive the distribution is the empty map.
\<close>

theorem emotion_distribution_sum:
  assumes "generate_insights entries = Inr (Some ins)"
  shows "(0 < emotion_total entries \<longrightarrow>
            \<bar>sum_list (map snd (emotion_distribution ins)) - 1\<bar>
              \<le> real (length (emotion_distribution ins)) * 0.0005 \<and>
            list_all2 (\<lambda>(emotion, share) (name, score).
                 emotion = name \<and>
                 \<bar>share - score / emotion_total entries\<bar> \<le> 0.0005 \<and>
                 (\<exists>k::int. share = real_of_int k / 1000))
              (emotion_distribution ins) (aggregate_emotions entries)) \<and>
         (emotion_total entries \<le> 0 \<longrightarrow> emotion_distribution ins = [])"
proof -
  have d: "emotion_distribution ins = distribution_of (aggregate_emotions entries)"
    using assms by (auto simp: generate_insights_def Let_def split: if_splits)
  show ?thesis
  proof (cases "0 < emotion_total entries")
    case True
    let ?xs = "aggregate_emotions entries"
    let ?t = "emotion_total entries"
    have e: "emotion_distribution ins =
               map (\<lambda>(emotion, score). (emotion, py_round (score / ?t) 3)) ?xs"
      using True by (simp add: d distribution_of_def emotion_total_def Let_def)
    have "sum_list (map snd ?xs) / ?t = 1"
      using True by (simp add: emotion_total_def)
    with rounded_shares_close [of ?t ?xs]
    have "\<bar>sum_list (map snd (emotion_distribution ins)) - 1\<bar> \<le> real (length ?xs) / 2000"
      by (simp add: e)
    then have b: "\<bar>sum_list (map snd (emotion_distribution ins)) - 1\<bar>
              \<le> real (length (emotion_distribution ins)) * 0.0005"
      by (simp add: e)
    show ?thesis
      using True b rounded_shares_each [of ?t ?xs] unfolding e [symmetric] by simp
  next
    case False
    then show ?thesis by (simp add: d distribution_of_def emotion_total_def Let_def)
  qed
qed

theorem emotion_distribution_sum_witness:
  "\<exists>ins. generate_insights thirds = Inr (Some ins) \<and>
     \<bar>sum_list (map snd (emotion_distribution ins)) - 1\<bar> \<le> 8 * 0.0005"
proof -
  obtain ins where g: "generate_insights thirds = Inr (Some ins)"
    by (simp add: generate_insights_def thirds_nonempty Let_def)
  have t: "0 < emotion_total thirds"
    by (simp add: emotion_total_def aggregate_thirds)
  from emotion_distribution_sum [OF g] t
  have b: "\<bar>sum_list (map snd (emotion_distribution ins)) - 1\<bar>
              \<le> real (length (emotion_distribution ins)) * 0.0005"
    and l: "list_all2 (\<lambda>(emotion, share) (name, score).
                 emotion = name \<and>
                 \<bar>share - score / emotion_total thirds\<bar> \<le> 0.0005 \<and>
                 (\<exists>k::int. share = real_of_int k / 1000))
              (emotion_distribution ins) (aggregate_emotions thirds)"
    by blast+
  have "length (emotion_distribution ins) = 8"
    using list_all2_lengthD [OF l] by (simp add: aggregate_thirds)
  then show ?thesis using b g by auto
qed

text \<open>
  C7 (as the claim states it) fails: one entry with three emotions of score 1/2 and
  the five others at 0 has the total 3/2, each share 1/3 is rounded to 0.333, and the
  values sum to 0.999, further from 1 than 1e-6.
\<close>

theorem emotion_distribution_sum_not_one:
  "generate_insights thirds =
     Inr (Some \<lparr>total_entries = 1, avg_sentiment = 0, dominant_emotion = ''joy'',
                emotion_distribution =
                  [(''joy'', 333 / 1000), (''sadness'', 0), (''fear'', 333 / 1000),
                   (''anger'', 333 / 1000), (''surprise'', 0), (''disgust'', 0),
                   (''trust'', 0), (''anticipation'', 0)],
                recurring_themes = [],
                stress_trend = ''insufficient data''\<rparr>) \<and>
   emotion_total thirds = 3 / 2 \<and>
   sum_list [333 / 1000, 0, 333 / 1000, 333 / 1000, 0, 0, 0, 0] = (999 / 1000 :: real) \<and>
   \<not> \<bar>999 / 1000 - (1 :: real)\<bar> \<le> 1 / 1000000"
  by (simp add: generate_insights_def thirds_def sample_entry_def Let_def sum_truthy_def
      truthy_def aggregate_emotions_def add_entry_emotions_def dominant_of_def
      distribution_of_def most_common_def all_themes_of_def stress_trend_of_def
      py_round_def round_half_even_def emotion_total_def)

section \<open>The trend predictor (predict\_mood\_trend)\<close>

text \<open>
  C3 (as the code has it). \<open>predict_mood_trend\<close> never raises, and it returns \<open>None\<close>
  in exactly four cases: fewer than 7 entries; fewer than 3 entries with a sentiment
  (every entry has a timestamp); a fit that raises, which \<open>except\<close> turns into \<open>None\<close>;
  and \<open>days_ahead\<close> below 1, where there is no future day and the empty prediction
  raises inside the \<open>try\<close>. In every other case it returns a forecast.
\<close>

theorem predict_none_cases:
  "\<not> isl (predict_mood_trend fit entries days_ahead) \<and>
   (predict_mood_trend fit entries days_ahead = Inr None \<longleftrightarrow>
      length entries < 7 \<or>
      length (filter (\<lambda>entry. sentiment_score entry \<noteq> None) entries) < 3 \<or>
      isl (fit (map fst (trend_points entries)) (map snd (trend_points entries))) \<or>
      days_ahead < 1)"
  by (auto simp: predict_mood_trend_def Let_def length_trend_points upto_empty_iff
      split: sum.splits)

theorem predict_none_cases_witness:
  "predict_mood_trend ols_fit week_in_order 0 = Inr None \<and>
   predict_mood_trend ols_fit week_in_order 1 \<noteq> Inr None \<and>
   predict_mood_trend ols_fit [] 7 = Inr None"
  using predict_none_cases [of ols_fit week_in_order 0]
    predict_none_cases [of ols_fit week_in_order 1]
    predict_none_cases [of ols_fit "[]" 7]
  by (simp add: trend_points_week_in_order ols_week_in_order length_week_in_order
      scored_week_in_order del: not_None_eq)

text \<open>
  C3 (as the claim states it) fails: seven entries on seven days, each with a
  sentiment, are enough data and the fit succeeds, and \<open>days_ahead = 0\<close> still gives
  \<open>None\<close>.
\<close>

theorem predict_none_with_enough_data:
  "7 \<le> length week_in_order \<and>
   3 \<le> length (trend_points week_in_order) \<and>
   ols_fit (map fst (trend_points week_in_order)) (map snd (trend_points week_in_order))
     = Inr (1 / 10, 0) \<and>
   predict_mood_trend ols_fit week_in_order 0 = Inr None"
  by (simp add: predict_mood_trend_def Let_def length_week_in_order
      trend_points_week_in_order ols_week_in_order upto.simps)

text \<open>
  C4. The code counts the offsets from \<open>entries[0]\<close>, the first entry of the input as
  given, while it walks the entries in date order. With the latest of seven daily
  entries given first, the offsets are -6 .. 0 and the forecast is for the offsets
  1 .. 7; counted from the earliest entry they are 0 .. 6 and the forecast is for
  7 .. 13, which is what the same entries give in date order.
\<close>

theorem offsets_from_first_entry:
  "predict_mood_trend ols_fit week_latest_first 7 =
     Inr (Some \<lparr>days = [1, 2, 3, 4, 5, 6, 7],
                predictions = [7 / 10, 4 / 5, 9 / 10, 1, 11 / 10, 6 / 5, 13 / 10],
                trend = ''improving'', confidence = ''low''\<rparr>) \<and>
   predict_mood_trend ols_fit week_in_order 7 =
     Inr (Some \<lparr>days = [7, 8, 9, 10, 11, 12, 13],
                predictions = [7 / 10, 4 / 5, 9 / 10, 1, 11 / 10, 6 / 5, 13 / 10],
                trend = ''improving'', confidence = ''low''\<rparr>)"
  by (simp add: predict_mood_trend_def Let_def length_week_in_order length_week_latest_first
      trend_points_week_in_order trend_points_week_latest_first
      ols_week_in_order ols_week_latest_first line_at_def upto.simps)

section \<open>The pattern analyzer (\_analyze\_time\_patterns)\<close>

text \<open>
  C9. Both buckets are non-empty and one entry has no sentiment: the sum over its
  bucket raises \<open>TypeError\<close>, so the analysis raises where the claim has it return.
\<close>

theorem time_patterns_type_error:
  "analyze_time_patterns [at_day 0 8 None, at_day 0 20 (Some (1 / 2))] = Inl TypeError"
  by (simp add: analyze_time_patterns_def Let_def at_day_def sample_entry_def hour_def
      us_per_day_def us_per_hour_def)

section \<open>The text analyzer (analyze\_dream)\<close>

text \<open>
  C5. For every text that is empty or holds whitespace only, whatever the libraries
  would do, \<open>analyze_dream\<close> returns the zero analysis: sentiment 0, each of the eight
  emotion categories of the lexicon with score 0, the five entity sets empty, no
  theme, intensity 0 and stress 0.
\<close>

theorem analyze_dream_blank:
  assumes "list_all py_isspace text"
  shows "analyze_dream env (Some text) =
           Inr \<lparr>res_sentiment_score = 0,
                res_emotions = [(''joy'', 0), (''sadness'', 0), (''fear'', 0), (''anger'', 0),
                                (''surprise'', 0), (''disgust'', 0), (''trust'', 0),
                                (''anticipation'', 0)],
                res_entities = \<lparr>people = {}, places = {}, organizations = {}, other = {},
                                symbols = {}\<rparr>,
                res_themes = [],
                res_dream_intensity = 0,
                res_stress_level = 0\<rparr> \<and>
         map fst emotion_keywords =
           [''joy'', ''sadness'', ''fear'', ''anger'', ''surprise'', ''disgust'', ''trust'',
            ''anticipation'']"
  using assms
  by (simp add: analyze_dream_def py_strip_blank empty_analysis_def EMOTION_CATEGORIES_def
      emotion_keywords_def)

theorem analyze_dream_blank_witness:
  "analyze_dream failing_env (Some [CHR '' '', CHR 0x09, CHR 0x0A]) =
           Inr \<lparr>res_sentiment_score = 0,
                res_emotions = [(''joy'', 0), (''sadness'', 0), (''fear'', 0), (''anger'', 0),
                                (''surprise'', 0), (''disgust'', 0), (''trust'', 0),
                                (''anticipation'', 0)],
                res_entities = \<lparr>people = {}, places = {}, organizations = {}, other = {},
                                symbols = {}\<rparr>,
                res_themes = [],
                res_dream_intensity = 0,
                res_stress_level = 0\<rparr>"
  using analyze_dream_blank [of "[CHR '' '', CHR 0x09, CHR 0x0A]" failing_env]
  by (simp add: py_isspace_def)

text \<open>
  C6. When spaCy gives the document \<open>d\<close> for the text, \<open>_detect_emotions\<close> returns a
  score for every category of the lexicon, in the lexicon's order, and the score of a
  category is \<open>min(matches / (word_count * 0.1), 1.0)\<close> rounded to 3 decimals (a value
  of 3 decimals within 0.0005 of it), where \<open>matches\<close> is the number of the category's
  keywords that occur in the lower-cased text (a keyword counts once however often it
  occurs) and \<open>word_count\<close> is the number of tokens that are neither stop words nor
  punctuation, at least 1. For a text that is not blank these are the emotions
  \<open>analyze_dream\<close> returns.
\<close>

theorem detect_emotions_scores:
  assumes "nlp env text = Inr d"
    and "(emotion, keywords) \<in> set emotion_keywords"
  shows "\<exists>scores score.
           detect_emotions env text = Inr scores \<and>
           map fst scores = map fst emotion_keywords \<and>
           map_of scores emotion = Some score \<and>
           \<bar>score - min (real (card {k \<in> set keywords. occurs_in k (py_lower text)})
                           / (real (spec_word_count d) * 0.1)) 1.0\<bar> \<le> 0.0005 \<and>
           (\<exists>k::int. score = real_of_int k / 1000) \<and>
           (\<forall>a. py_strip text \<noteq> [] \<longrightarrow> analyze_dream env (Some text) = Inr a \<longrightarrow>
                res_emotions a = scores)"
proof -
  let ?n = "length (filter (\<lambda>t. \<not> is_stop t \<and> \<not> is_punct t) (tokens d))"
  let ?x = "\<lambda>ks. min (real (keyword_matches ks (py_lower text))
                         / (real (spec_word_count d) * 0.1)) 1.0"
  let ?g = "\<lambda>ks. py_round (?x ks) 3"
  let ?scores = "map (\<lambda>(emotion, keywords). (emotion, ?g keywords)) emotion_keywords"
  have wc: "(if ?n = 0 then 1 else ?n) = spec_word_count d"
    by (cases "?n") (simp_all add: spec_word_count_def)
  have "detect_emotions env text =
          Inr (map (\<lambda>(emotion, keywords).
                 (emotion,
                  py_round (min (real (keyword_matches keywords (py_lower text))
                                   / (real (if ?n = 0 then 1 else ?n) * 0.1)) 1.0) 3))
               emotion_keywords)"
    using assms(1) by (simp add: detect_emotions_def Let_def)
  then have s: "detect_emotions env text = Inr ?scores"
    unfolding wc .
  have k: "map fst ?scores = map fst emotion_keywords"
    by (simp add: case_prod_unfold comp_def)
  have dk: "distinct keywords"
    using assms(2) emotion_keywords_each_distinct by (auto simp: list_all_iff)
  have m: "map_of ?scores emotion = Some (?g keywords)"
    using emotion_names_distinct assms(2) by (rule map_of_scored)
  have x: "?x keywords =
             min (real (card {k \<in> set keywords. occurs_in k (py_lower text)})
                    / (real (spec_word_count d) * 0.1)) 1.0"
    by (simp add: keyword_matches_card [OF dk])
  have c0: "\<bar>?g keywords - ?x keywords\<bar> \<le> 0.0005"
    using py_round3_close [of "?x keywords"] by simp
  have c: "\<bar>?g keywords
             - min (real (card {k \<in> set keywords. occurs_in k (py_lower text)})
                      / (real (spec_word_count d) * 0.1)) 1.0\<bar> \<le> 0.0005"
    unfolding x [symmetric] by (rule c0)
  have i: "\<exists>k::int. ?g keywords = real_of_int k / 1000"
    by (rule py_round3_decimal)
  have a: "\<forall>a. py_strip text \<noteq> [] \<longrightarrow> analyze_dream env (Some text) = Inr a \<longrightarrow>
                res_emotions a = ?scores"
    by (auto simp: analyze_dream_def s py_strip_def split: sum.splits if_splits)
  have "detect_emotions env text = Inr ?scores \<and>
        map fst ?scores = map fst emotion_keywords \<and>
        map_of ?scores emotion = Some (?g keywords) \<and>
        \<bar>?g keywords
           - min (real (card {k \<in> set keywords. occurs_in k (py_lower text)})
                    / (real (spec_word_count d) * 0.1)) 1.0\<bar> \<le> 0.0005 \<and>
        (\<exists>k::int. ?g keywords = real_of_int k / 1000) \<and>
        (\<forall>a. py_strip text \<noteq> [] \<longrightarrow> analyze_dream env (Some text) = Inr a \<longrightarrow>
             res_emotions a = ?scores)"
    using s k m c i a by blast
  then show ?thesis by blast
qed

theorem detect_emotions_scores_witness:
  "\<exists>scores score. detect_emotions happy_env happy_text = Inr scores \<and>
     map fst scores = map fst emotion_keywords \<and>
     map_of scores ''joy'' = Some score \<and> \<bar>score - 1 / 2\<bar> \<le> 0.0005"
proof -
  have n: "nlp happy_env happy_text = Inr happy_doc" by (simp add: happy_env_def)
  from detect_emotions_scores [OF n joy_in_lexicon]
  obtain scores score where s: "detect_emotions happy_env happy_text = Inr scores"
    and k: "map fst scores = map fst emotion_keywords"
    and m: "map_of scores ''joy'' = Some score"
    and c: "\<bar>score - min (real (card {k \<in> set [''happy'', ''joyful'', ''excited'', ''delighted'',
                 ''cheerful'', ''wonderful'', ''amazing'', ''love'', ''loved'', ''beautiful'',
                 ''peaceful'', ''content'']. occurs_in k (py_lower happy_text)})
           / (real (spec_word_count happy_doc) * 0.1)) 1.0\<bar> \<le> 0.0005"
    by blast
  have "\<bar>score - 1 / 2\<bar> \<le> 0.0005"
    using c unfolding happy_joy_matches happy_word_count by simp
  then show ?thesis using s k m by blast
qed
text \<open>
  C10. The code cuts the list of qualifying nouns to its first 10 tokens and removes
  the duplicates afterwards. A text of nineteen qualifying nouns, the first ten of
  them "house", has ten distinct qualifying nouns, and its symbols are "house" alone.
\<close>

theorem symbols_first_ten_tokens:
  "card (set (nouns_of house_doc)) = 10 \<and>
   extract_entities house_env house_text =
     Inr \<lparr>people = {}, places = {}, organizations = {}, other = {}, symbols = {''house''}\<rparr>"
  by (simp add: extract_entities_def house_env_def house_nouns Let_def house_ents
      house_distinct_nouns [unfolded house_nouns])

section \<open>The insight composer (generate\_personalized\_insights)\<close>

text \<open>
  C8 (as the code has it). \<open>generate_personalized_insights\<close> looks at the last 7
  entries by date. For every collection of at least 5 entries whose recent sentiment
  (the sum of the sentiments present in those entries over their number) is below
  -0.3, whatever the dominant emotion, it returns insights and recommendations, the
  recommendations begin with the stress-reduction sentence and the journaling
  sentence, and no recommendation is the default sentence on balanced patterns or
  speaks of balance: this function has no rule on the dominant emotion and no
  default message.
\<close>

theorem personalized_recommendations:
  assumes "5 \<le> length entries"
    and "recent_sentiment_of entries < - 0.3"
  shows "\<exists>insights recs stats.
           generate_personalized_insights entries = Inr (Personalized insights recs stats) \<and>
           take 2 recs = [stress_reduction_rec, journaling_rec] \<and>
           balanced_rec \<notin> set recs \<and>
           list_all (\<lambda>r. \<not> occurs_in ''balanced'' r) recs"
proof -
  define stress where
    "stress = sum_truthy (map stress_level (recent_entries_of entries))
                / real (length (recent_entries_of entries))"
  define nightmare_count where
    "nightmare_count =
       sum_list (map (\<lambda>e. 1 :: nat) (filter is_nightmare (recent_entries_of entries)))"
  define frequency where
    "frequency =
       real (length entries)
         / real_of_int (max (days_between (dream_date (last entries))
                               (dream_date (entries ! 0))) 1) * 7"
  show ?thesis
    unfolding generate_personalized_insights_def Let_def stress_def [symmetric]
      nightmare_count_def [symmetric] frequency_def [symmetric]
    using assms
    by (simp add: py_in_iff [symmetric] personal_recs_not_balanced personal_recs_differ
        personal_recs_differ [symmetric])
qed

theorem personalized_recommendations_witness:
  "generate_insights fearful_entries = Inr (Some fearful_insights) \<and>
   generate_personalized_insights fearful_entries =
     Inr (Personalized
            [''Your recent dreams show negative sentiment patterns'',
             ''Excellent dream recall! You're recording frequently'']
            [stress_reduction_rec, journaling_rec, detailed_records_rec]
            \<lparr>total_dreams = 5, stats_avg_sentiment = - 1 / 2, dreams_per_week = 35,
             recent_stress = 0\<rparr>)"
proof -
  have l: "5 \<le> length fearful_entries" by (simp add: fearful_entries_def)
  have s: "sum_truthy (map sentiment_score fearful_entries) = - 5 / 2"
    "sum_truthy (map stress_level fearful_entries) = 0"
    "filter is_nightmare fearful_entries = []"
    "length fearful_entries = 5"
    "days_between (dream_date (last fearful_entries)) (dream_date (fearful_entries ! 0)) = 0"
    by (simp_all add: fearful_entries_def fearful_def sample_entry_def sum_truthy_def
        truthy_def is_nightmare_def days_between_def)
  have r: "recent_sentiment_of fearful_entries < - 0.3"
    by (simp add: recent_sentiment_of_def recent_fearful s)
  have p: "generate_personalized_insights fearful_entries =
     Inr (Personalized
            [''Your recent dreams show negative sentiment patterns'',
             ''Excellent dream recall! You're recording frequently'']
            [stress_reduction_rec, journaling_rec, detailed_records_rec]
            \<lparr>total_dreams = 5, stats_avg_sentiment = - 1 / 2, dreams_per_week = 35,
             recent_stress = 0\<rparr>)"
    by (simp add: generate_personalized_insights_def Let_def recent_sentiment_of_def
        recent_fearful s py_round_def round_half_even_def)
  show ?thesis
    using personalized_recommendations [OF l r] p generate_insights_fearful by simp
qed

text \<open>
  C8 (as the claim states it) fails: fourteen daily entries whose only emotion is
  fear, the oldest seven of sentiment -1 and the newest seven of sentiment 0, have
  the average sentiment -0.5 and the dominant emotion fear, and the only
  recommendation is the one on detailed records.
\<close>

theorem personalized_ignores_overall_average:
  "generate_insights fortnight =
     Inr (Some \<lparr>total_entries = 14, avg_sentiment = - 0.5, dominant_emotion = ''fear'',
                emotion_distribution =
                  [(''joy'', 0), (''sadness'', 0), (''fear'', 1), (''anger'', 0),
                   (''surprise'', 0), (''disgust'', 0), (''trust'', 0), (''anticipation'', 0)],
                recurring_themes = [],
                stress_trend = ''insufficient data''\<rparr>) \<and>
   generate_personalized_insights fortnight =
     Inr (Personalized
            [''Excellent dream recall! You're recording frequently'']
            [detailed_records_rec]
            \<lparr>total_dreams = 14, stats_avg_sentiment = - 1 / 2, dreams_per_week = 7.5,
             recent_stress = 0\<rparr>)"
proof -
  have g: "generate_insights fortnight =
     Inr (Some \<lparr>total_entries = 14, avg_sentiment = - 0.5, dominant_emotion = ''fear'',
                emotion_distribution =
                  [(''joy'', 0), (''sadness'', 0), (''fear'', 1), (''anger'', 0),
                   (''surprise'', 0), (''disgust'', 0), (''trust'', 0), (''anticipation'', 0)],
                recurring_themes = [],
                stress_trend = ''insufficient data''\<rparr>)"
    by (simp add: generate_insights_def fortnight_def fear_day_def sample_entry_def Let_def
        sum_truthy_def truthy_def aggregate_emotions_def add_entry_emotions_def
        dominant_of_def distribution_of_def most_common_def all_themes_of_def
        stress_trend_of_def py_round_def round_half_even_def)
  have s: "sum_truthy (map sentiment_score (recent_entries_of fortnight)) = 0"
    "sum_truthy (map stress_level (recent_entries_of fortnight)) = 0"
    "filter is_nightmare (recent_entries_of fortnight) = []"
    "length (recent_entries_of fortnight) = 7"
    by (simp_all add: recent_fortnight fear_day_def sample_entry_def sum_truthy_def
        truthy_def is_nightmare_def)
  have t: "sum_truthy (map sentiment_score fortnight) = - 7"
    "length fortnight = 14"
    "days_between (dream_date (last fortnight)) (dream_date (fortnight ! 0)) = 13"
    by (simp_all add: fortnight_def fear_day_def sample_entry_def sum_truthy_def
        truthy_def days_between_def us_per_day_def)
  have p: "generate_personalized_insights fortnight =
     Inr (Personalized
            [''Excellent dream recall! You're recording frequently'']
            [detailed_records_rec]
            \<lparr>total_dreams = 14, stats_avg_sentiment = - 1 / 2, dreams_per_week = 7.5,
             recent_stress = 0\<rparr>)"
    by (simp add: generate_personalized_insights_def Let_def recent_sentiment_of_def s t
        py_round_def round_half_even_def)
  show ?thesis using g p by simp
qed

end
